theory Spec2Isabelle
  imports Main "HOL-Library.Sublist"
begin

section \<open>The world the build script runs in\<close>

text \<open>
  The script \<^verbatim>\<open>build-and-fix.py\<close> is a sequence of stages that launch external commands
  and read and write the file system. The model threads one state through the stages:
  the process working directory, the file system, the hidden state of everything
  outside the script, and the list of commands launched so far. Console output
  (the \<^verbatim>\<open>print_*\<close> helpers) is presentation and is not modelled.
\<close>

type_synonym path = "string list"

text \<open>
  A file-system entry is a regular file with its text or a directory. The file system
  maps absolute paths (lists of components) to entries. Symbolic links, permissions
  and device errors are outside the model: a file operation fails exactly where the
  kind of the entry it finds makes Python raise.
\<close>

datatype entry = File string | Dir

type_synonym filesystem = "path \<Rightarrow> entry option"

text \<open>The exceptions the modelled library calls raise.\<close>

datatype exn =
    ValueError
  | AttributeError
  | FileNotFoundError
  | FileExistsError
  | IsADirectoryError
  | NotADirectoryError
  | JSONDecodeError

text \<open>
  \<^verbatim>\<open>subprocess.CompletedProcess\<close>: the exit status and the captured standard output
  (read by the script only for invocations that capture it).
\<close>

datatype completed_process = CompletedProcess (returncode: int) (stdout: string)

text \<open>What \<^verbatim>\<open>subprocess.run(..., timeout=300)\<close> does: return, or raise one of two ways.\<close>

datatype run_outcome =
    Returned completed_process
  | TimeoutExpired
  | OtherException string

text \<open>JSON values as \<^verbatim>\<open>json.load\<close> builds them; a \<^verbatim>\<open>dict\<close> keeps insertion order.\<close>

datatype json =
    JNull
  | JBool bool
  | JInt int
  | JFloat string
  | JString string
  | JArray "json list"
  | JObject "(string \<times> json) list"

text \<open>
  The external collaborators, taken as parameters: the behaviour of a launched command
  (command line, working directory, capture flag; it may change the file system and
  the hidden state), the JSON parser and printer of the standard library, and the
  formatted wall-clock time.
\<close>

record 'e environment =
  subprocess_run :: "string \<Rightarrow> path \<Rightarrow> bool \<Rightarrow> filesystem \<times> 'e \<Rightarrow> run_outcome \<times> filesystem \<times> 'e"
  json_load :: "string \<Rightarrow> json option"
  json_dump :: "json \<Rightarrow> string"
  strftime_now :: "'e \<Rightarrow> string"

record 'e world =
  cwd :: path
  files :: filesystem
  ext :: 'e
  launched :: "(string \<times> path) list"

subsection \<open>File operations\<close>

definition exists_path :: "'e world \<Rightarrow> path \<Rightarrow> bool" where
  "exists_path w p = (files w (cwd w @ p) \<noteq> None)"

text \<open>\<^verbatim>\<open>shutil.rmtree(p)\<close>: removes a directory and everything below it.\<close>

definition rmtree :: "path \<Rightarrow> 'e world \<Rightarrow> exn + 'e world" where
  "rmtree p w =
     (case files w (cwd w @ p) of
        None \<Rightarrow> Inl FileNotFoundError
      | Some (File c) \<Rightarrow> Inl NotADirectoryError
      | Some Dir \<Rightarrow>
          Inr (w\<lparr>files := (\<lambda>q. if prefix (cwd w @ p) q then None else files w q)\<rparr>))"

text \<open>
  \<^verbatim>\<open>shutil.copytree(src, dst)\<close>: the destination must not exist; afterwards the tree
  below \<open>dst\<close> is the tree below \<open>src\<close>. Used with \<open>src\<close> and \<open>dst\<close> disjoint.
\<close>

definition copytree :: "path \<Rightarrow> path \<Rightarrow> 'e world \<Rightarrow> exn + 'e world" where
  "copytree src dst w =
     (case files w (cwd w @ src) of
        None \<Rightarrow> Inl FileNotFoundError
      | Some (File c) \<Rightarrow> Inl NotADirectoryError
      | Some Dir \<Rightarrow>
          if files w (cwd w @ dst) \<noteq> None then Inl FileExistsError
          else Inr (w\<lparr>files :=
                 (\<lambda>q. if prefix (cwd w @ dst) q
                      then files w (cwd w @ src @ drop (length (cwd w @ dst)) q)
                      else files w q)\<rparr>))"

text \<open>\<^verbatim>\<open>shutil.copy(src, dst)\<close>: copies one regular file, into \<open>dst\<close> when that is a directory.\<close>

definition copy_file :: "path \<Rightarrow> path \<Rightarrow> 'e world \<Rightarrow> exn + 'e world" where
  "copy_file src dst w =
     (case files w (cwd w @ src) of
        None \<Rightarrow> Inl FileNotFoundError
      | Some Dir \<Rightarrow> Inl IsADirectoryError
      | Some (File c) \<Rightarrow>
          (case files w (cwd w @ dst) of
             Some Dir \<Rightarrow> Inr (w\<lparr>files := (files w)(cwd w @ dst @ [last src] \<mapsto> File c)\<rparr>)
           | _ \<Rightarrow> Inr (w\<lparr>files := (files w)(cwd w @ dst \<mapsto> File c)\<rparr>)))"

text \<open>\<^verbatim>\<open>open(p, 'r')\<close> and reading the whole file.\<close>

definition read_text :: "path \<Rightarrow> 'e world \<Rightarrow> exn + string" where
  "read_text p w =
     (case files w (cwd w @ p) of
        None \<Rightarrow> Inl FileNotFoundError
      | Some Dir \<Rightarrow> Inl IsADirectoryError
      | Some (File c) \<Rightarrow> Inr c)"

text \<open>\<^verbatim>\<open>open(p, 'w')\<close> and writing the whole file: creates or replaces a regular file.\<close>

definition write_text :: "path \<Rightarrow> string \<Rightarrow> 'e world \<Rightarrow> exn + 'e world" where
  "write_text p c w =
     (case files w (cwd w @ p) of
        Some Dir \<Rightarrow> Inl IsADirectoryError
      | _ \<Rightarrow> Inr (w\<lparr>files := (files w)(cwd w @ p \<mapsto> File c)\<rparr>))"

section \<open>The command runner\<close>

text \<open>
  \<^verbatim>\<open>run_command(command, cwd=None, capture_output=True)\<close>: returns the completed process,
  and \<^verbatim>\<open>None\<close> in both \<^verbatim>\<open>except\<close> branches. The command and the directory it ran in are
  appended to \<open>launched\<close>.
\<close>

definition run_command ::
  "'e environment \<Rightarrow> string \<Rightarrow> path option \<Rightarrow> bool \<Rightarrow> 'e world \<Rightarrow> completed_process option \<times> 'e world" where
  "run_command env command cwd_arg capture_output w =
     (let dir = (case cwd_arg of None \<Rightarrow> cwd w | Some p \<Rightarrow> cwd w @ p);
          (r, fs', e') = subprocess_run env command dir capture_output (files w, ext w);
          w' = w\<lparr>files := fs', ext := e', launched := launched w @ [(command, dir)]\<rparr>
      in case r of
           Returned result \<Rightarrow> (Some result, w')
         | TimeoutExpired \<Rightarrow> (None, w')
         | OtherException e \<Rightarrow> (None, w'))"

text \<open>The test \<^verbatim>\<open>result and result.returncode == 0\<close>; a completed process is truthy.\<close>

definition succeeded :: "completed_process option \<Rightarrow> bool" where
  "succeeded result = (case result of None \<Rightarrow> False | Some r \<Rightarrow> returncode r = 0)"

section \<open>The environment prober\<close>

text \<open>
  Python's string helpers on code points below 256. White space is what
  \<^verbatim>\<open>str.isspace\<close> accepts there.
\<close>

definition py_isspace :: "char \<Rightarrow> bool" where
  "py_isspace c =
     (let n = (of_char c :: nat)
      in (9 \<le> n \<and> n \<le> 13) \<or> (28 \<le> n \<and> n \<le> 32) \<or> n = 133 \<or> n = 160)"

definition py_strip :: "string \<Rightarrow> string" where
  "py_strip s = rev (dropWhile py_isspace (rev (dropWhile py_isspace s)))"

definition py_lstrip :: "string \<Rightarrow> string \<Rightarrow> string" where
  "py_lstrip chars s = dropWhile (\<lambda>c. c \<in> set chars) s"

text \<open>\<^verbatim>\<open>s.split(sep)[0]\<close> for a one-character separator: the text before its first occurrence.\<close>

definition py_split_first :: "char \<Rightarrow> string \<Rightarrow> string" where
  "py_split_first sep s = takeWhile (\<lambda>c. c \<noteq> sep) s"

definition is_digit :: "char \<Rightarrow> bool" where
  "is_digit c = (48 \<le> (of_char c :: nat) \<and> (of_char c :: nat) \<le> 57)"

definition digit_value :: "char \<Rightarrow> int" where
  "digit_value c = int (of_char c) - 48"

text \<open>
  The digits of a decimal literal after its first digit: single underscores are allowed
  between digits.
\<close>

fun py_int_digits :: "int \<Rightarrow> string \<Rightarrow> int option" where
  "py_int_digits acc [] = Some acc"
| "py_int_digits acc [c] =
     (if is_digit c then Some (acc * 10 + digit_value c) else None)"
| "py_int_digits acc (c # d # cs) =
     (if is_digit c then py_int_digits (acc * 10 + digit_value c) (d # cs)
      else if c = CHR ''_'' \<and> is_digit d then py_int_digits acc (d # cs)
      else None)"

text \<open>
  An unsigned literal starts with a digit and has at most 4300 digits, the
  interpreter's default limit (underscores are not counted).
\<close>

definition py_int_unsigned :: "string \<Rightarrow> int option" where
  "py_int_unsigned s =
     (if length (filter is_digit s) > 4300 then None
      else
        (case s of
           [] \<Rightarrow> None
         | c # cs \<Rightarrow> if is_digit c then py_int_digits (digit_value c) cs else None))"

text \<open>
  The white space \<^verbatim>\<open>int\<close> skips around a literal is narrower than that of \<^verbatim>\<open>str.strip\<close>:
  the ASCII separators U+001C to U+001F are not skipped.
\<close>

definition py_int_isspace :: "char \<Rightarrow> bool" where
  "py_int_isspace c =
     (let n = (of_char c :: nat)
      in (9 \<le> n \<and> n \<le> 13) \<or> n = 32 \<or> n = 133 \<or> n = 160)"

definition py_int_strip :: "string \<Rightarrow> string" where
  "py_int_strip s = rev (dropWhile py_int_isspace (rev (dropWhile py_int_isspace s)))"

text \<open>
  \<^verbatim>\<open>int(s)\<close> in base 10: white space, an optional sign, the literal, white space;
  \<open>None\<close> is the \<^verbatim>\<open>ValueError\<close>.
\<close>

definition py_int :: "string \<Rightarrow> int option" where
  "py_int s =
     (case py_int_strip s of
        [] \<Rightarrow> None
      | c # cs \<Rightarrow>
          if c = CHR ''-'' then map_option uminus (py_int_unsigned cs)
          else if c = CHR ''+'' then py_int_unsigned cs
          else py_int_unsigned (c # cs))"

text \<open>\<^verbatim>\<open>node_version.lstrip('v').split('.')[0]\<close>.\<close>

definition major_token :: "string \<Rightarrow> string" where
  "major_token node_version = py_split_first CHR ''.'' (py_lstrip ''v'' node_version)"

definition check_system_requirements :: "'e environment \<Rightarrow> 'e world \<Rightarrow> (exn + bool) \<times> 'e world" where
  "check_system_requirements env w =
     (case run_command env ''node --version'' None True w of
        (result, w1) \<Rightarrow>
          if succeeded result then
            (case result of
               None \<Rightarrow> (Inr False, w1)
             | Some r \<Rightarrow>
                 (case py_int (major_token (py_strip (stdout r))) of
                    None \<Rightarrow> (Inl ValueError, w1)
                  | Some major_version \<Rightarrow>
                      if major_version \<ge> 16 then
                        (case run_command env ''npm --version'' None True w1 of
                           (result2, w2) \<Rightarrow>
                             if succeeded result2 then (Inr True, w2) else (Inr False, w2))
                      else (Inr False, w1)))
          else (Inr False, w1))"

section \<open>Dependency installation\<close>

definition install_dependencies :: "'e environment \<Rightarrow> bool \<Rightarrow> 'e world \<Rightarrow> (exn + bool) \<times> 'e world" where
  "install_dependencies env skip_install w =
     (if skip_install then (Inr True, w)
      else
        (case run_command env ''npm install'' None False w of
           (result, w1) \<Rightarrow>
             if succeeded result then
               (if exists_path w1 [''frontend''] then
                  (case run_command env ''npm install'' (Some [''frontend'']) False w1 of
                     (result2, w2) \<Rightarrow>
                       if succeeded result2 then (Inr True, w2) else (Inr False, w2))
                else (Inr True, w1))
             else (Inr False, w1)))"

section \<open>The configuration patcher\<close>

text \<open>
  A Python \<^verbatim>\<open>dict\<close> is an association list in insertion order. \<^verbatim>\<open>d[k] = v\<close> replaces the
  value of an existing key where it stands and appends a new key at the end;
  \<^verbatim>\<open>d.get(k)\<close> is \<open>map_of\<close>; \<^verbatim>\<open>d.update(other)\<close> assigns the pairs of \<open>other\<close> in order.
\<close>

fun dict_set :: "string \<Rightarrow> json \<Rightarrow> (string \<times> json) list \<Rightarrow> (string \<times> json) list" where
  "dict_set k v [] = [(k, v)]"
| "dict_set k v ((k', v') # d) = (if k = k' then (k, v) # d else (k', v') # dict_set k v d)"

fun dict_update :: "(string \<times> json) list \<Rightarrow> (string \<times> json) list \<Rightarrow> (string \<times> json) list" where
  "dict_update d [] = d"
| "dict_update d ((k, v) # other) = dict_update (dict_set k v d) other"

definition overrides :: "(string \<times> json) list" where
  "overrides =
     [(''jsx'', JString ''react-jsx''),
      (''moduleResolution'', JString ''node''),
      (''allowSyntheticDefaultImports'', JBool True),
      (''esModuleInterop'', JBool True),
      (''skipLibCheck'', JBool True),
      (''strict'', JBool False),
      (''noImplicitAny'', JBool False),
      (''strictNullChecks'', JBool False)]"

text \<open>
  Lines 128 to 140, on the loaded value: \<^verbatim>\<open>tsconfig.get\<close> needs a \<^verbatim>\<open>dict\<close>, and so does
  \<^verbatim>\<open>compiler_options.update\<close>; any other value raises \<^verbatim>\<open>AttributeError\<close>.
\<close>

definition patch :: "json \<Rightarrow> exn + json" where
  "patch tsconfig =
     (case tsconfig of
        JObject members \<Rightarrow>
          (case (case map_of members ''compilerOptions'' of None \<Rightarrow> JObject [] | Some v \<Rightarrow> v) of
             JObject compiler_options \<Rightarrow>
               Inr (JObject (dict_set ''compilerOptions''
                      (JObject (dict_update compiler_options overrides)) members))
           | _ \<Rightarrow> Inl AttributeError)
      | _ \<Rightarrow> Inl AttributeError)"

text \<open>
  The documents the merge applies to: objects whose \<^verbatim>\<open>compilerOptions\<close> entry is absent
  or is an object.
\<close>

definition patchable :: "json \<Rightarrow> bool" where
  "patchable tsconfig =
     (case tsconfig of
        JObject members \<Rightarrow>
          (case map_of members ''compilerOptions'' of
             None \<Rightarrow> True
           | Some (JObject compiler_options) \<Rightarrow> True
           | _ \<Rightarrow> False)
      | _ \<Rightarrow> False)"

definition tsconfig_path :: path where
  "tsconfig_path = [''frontend'', ''tsconfig.json'']"

text \<open>The body of the \<^verbatim>\<open>try\<close> block, lines 124 to 146.\<close>

definition fix_typescript_config_try :: "'e environment \<Rightarrow> 'e world \<Rightarrow> (exn + bool) \<times> 'e world" where
  "fix_typescript_config_try env w =
     (case read_text tsconfig_path w of
        Inl e \<Rightarrow> (Inl e, w)
      | Inr content \<Rightarrow>
          (case json_load env content of
             None \<Rightarrow> (Inl JSONDecodeError, w)
           | Some tsconfig \<Rightarrow>
               (case patch tsconfig of
                  Inl e \<Rightarrow> (Inl e, w)
                | Inr tsconfig' \<Rightarrow>
                    (case write_text tsconfig_path (json_dump env tsconfig') w of
                       Inl e \<Rightarrow> (Inl e, w)
                     | Inr w' \<Rightarrow> (Inr True, w')))))"

definition fix_typescript_config :: "'e environment \<Rightarrow> 'e world \<Rightarrow> (exn + bool) \<times> 'e world" where
  "fix_typescript_config env w =
     (if exists_path w tsconfig_path then
        (case fix_typescript_config_try env w of
           (Inl e, w') \<Rightarrow> (Inr False, w')
         | (Inr b, w') \<Rightarrow> (Inr b, w'))
      else (Inr True, w))"

section \<open>The component inventory\<close>

definition component_files :: "path list" where
  "component_files =
     [[''frontend'', ''src'', ''main.tsx''],
      [''frontend'', ''src'', ''App.tsx''],
      [''frontend'', ''src'', ''context'', ''AirQualityContext.tsx''],
      [''frontend'', ''src'', ''components'', ''LoadingSpinner.tsx''],
      [''frontend'', ''src'', ''components'', ''ErrorBoundary.tsx''],
      [''frontend'', ''src'', ''components'', ''AQICard.tsx''],
      [''frontend'', ''src'', ''components'', ''WeatherCard.tsx''],
      [''frontend'', ''src'', ''components'', ''AlertsPanel.tsx''],
      [''frontend'', ''src'', ''components'', ''TrendChart.tsx'']]"

definition existing_files :: "'e world \<Rightarrow> path list" where
  "existing_files w = filter (exists_path w) component_files"

definition fix_react_components :: "'e world \<Rightarrow> (exn + bool) \<times> 'e world" where
  "fix_react_components w = (Inr True, w)"

section \<open>The build stage\<close>

definition dist_path :: path where
  "dist_path = [''frontend'', ''dist'']"

definition public_path :: path where
  "public_path = [''public'']"

text \<open>Lines 204 to 212: deployment of the build output after a first build that succeeded.\<close>

definition deploy :: "'e world \<Rightarrow> (exn + bool) \<times> 'e world" where
  "deploy w =
     (if exists_path w dist_path then
        (case (if exists_path w public_path then rmtree public_path w else Inr w) of
           Inl e \<Rightarrow> (Inl e, w)
         | Inr w1 \<Rightarrow>
             (case copytree dist_path public_path w1 of
                Inl e \<Rightarrow> (Inl e, w1)
              | Inr w2 \<Rightarrow> (Inr True, w2)))
      else (Inr False, w))"

text \<open>
  The states in which deployment raises: the build output exists, and it or the
  deployment target is a regular file, not a directory.
\<close>

definition is_file :: "entry option \<Rightarrow> bool" where
  "is_file e = (case e of Some (File c) \<Rightarrow> True | _ \<Rightarrow> False)"

definition deploy_blocked :: "'e world \<Rightarrow> bool" where
  "deploy_blocked w =
     (exists_path w dist_path \<and>
      (is_file (files w (cwd w @ public_path)) \<or> is_file (files w (cwd w @ dist_path))))"

definition build_frontend :: "'e environment \<Rightarrow> 'e world \<Rightarrow> (exn + bool) \<times> 'e world" where
  "build_frontend env w =
     (if \<not> exists_path w [''frontend''] then (Inr False, w)
      else
        (case run_command env ''npm run type-check'' (Some [''frontend'']) True w of
           (type_check, w1) \<Rightarrow>
             (case run_command env ''npm run build'' (Some [''frontend'']) False w1 of
                (result, w2) \<Rightarrow>
                  if succeeded result then deploy w2
                  else
                    (case run_command env ''npm install @types/node --save-dev''
                            (Some [''frontend'']) True w2 of
                       (installed, w3) \<Rightarrow>
                         (case run_command env ''npm run build'' (Some [''frontend'']) False w3 of
                            (result2, w4) \<Rightarrow>
                              if succeeded result2 then (Inr True, w4) else (Inr False, w4))))))"

section \<open>The backend configuration stage\<close>

definition env_path :: path where
  "env_path = [''.env'']"

definition env_example_path :: path where
  "env_example_path = [''.env.example'']"

definition test_backend :: "'e world \<Rightarrow> (exn + bool) \<times> 'e world" where
  "test_backend w =
     (if \<not> exists_path w env_path \<and> exists_path w env_example_path then
        (case copy_file env_example_path env_path w of
           Inl e \<Rightarrow> (Inl e, w)
         | Inr w' \<Rightarrow> (Inr True, w'))
      else (Inr True, w))"

section \<open>The status reporter\<close>

text \<open>
  The report text. The emoji of the source are written as bracketed ASCII names, and
  the time stamp is what the environment's clock formats.
\<close>

definition nl :: string where
  "nl = [CHR 0x0A]"

definition version_text :: "completed_process option \<Rightarrow> string" where
  "version_text result =
     (case result of
        None \<Rightarrow> ''Unknown''
      | Some r \<Rightarrow> if returncode r = 0 then py_strip (stdout r) else ''Unknown'')"

definition components_status :: "'e world \<Rightarrow> (string \<times> string) list" where
  "components_status w =
     [(''Backend Dependencies'',
         if exists_path w [''node_modules''] then ''[check] Installed'' else ''[cross] Missing''),
      (''Frontend Dependencies'',
         if exists_path w [''frontend'', ''node_modules''] then ''[check] Installed''
         else ''[cross] Missing''),
      (''Frontend Build'',
         if exists_path w dist_path then ''[check] Built'' else ''[cross] Failed''),
      (''Public Assets'',
         if exists_path w public_path then ''[check] Deployed'' else ''[cross] Missing''),
      (''Environment Config'',
         if exists_path w env_path then ''[check] Present'' else ''[cross] Missing'')]"

definition next_steps :: "bool \<Rightarrow> string" where
  "next_steps built =
     (if built then
        ''[check] Application is ready to run!'' @ nl @
        ''   '' @ nl @
        ''   To start the application:'' @ nl @
        ''   1. Configure your .env file with API keys'' @ nl @
        ''   2. Run: python start.py (or node start.js)'' @ nl @
        ''   3. Or run: npm start'' @ nl @
        ''   4. Open: http://localhost:3000'' @ nl
      else
        ''[cross] Build incomplete. Please:'' @ nl @
        ''   1. Check error messages above'' @ nl @
        ''   2. Fix TypeScript/React issues'' @ nl @
        ''   3. Run this script again'' @ nl @
        ''   4. Or contact support with the error details'' @ nl)"

definition render_report :: "string \<Rightarrow> string \<Rightarrow> string \<Rightarrow> (string \<times> string) list \<Rightarrow> bool \<Rightarrow> string" where
  "render_report date node_version npm_version statuses built =
     nl @ ''[target] BUILD REPORT'' @ nl @
     ''==============='' @ nl @
     ''Date: '' @ date @ nl @
     ''Node.js Version: '' @ node_version @ nl @
     ''npm Version: '' @ npm_version @ nl @
     nl @
     ''COMPONENTS STATUS:'' @ nl @
     concat (map (\<lambda>(component, status). ''- '' @ component @ '': '' @ status @ nl) statuses) @
     nl @ ''NEXT STEPS:'' @ nl @
     next_steps built"

definition report_path :: path where
  "report_path = [''build-report.txt'']"

definition generate_report :: "'e environment \<Rightarrow> 'e world \<Rightarrow> (exn + bool) \<times> 'e world" where
  "generate_report env w =
     (case run_command env ''node --version'' None True w of
        (node_result, w1) \<Rightarrow>
          (case run_command env ''npm --version'' None True w1 of
             (npm_result, w2) \<Rightarrow>
               (let report = render_report (strftime_now env (ext w2))
                               (version_text node_result) (version_text npm_result)
                               (components_status w2) (exists_path w2 dist_path)
                in case write_text report_path report w2 of
                     Inl e \<Rightarrow> (Inl e, w2)
                   | Inr w3 \<Rightarrow> (Inr (exists_path w3 dist_path), w3))))"

section \<open>The pipeline\<close>

record args =
  skip_install :: bool
  verbose :: bool
  fix_only :: bool

text \<open>
  How the process ends: \<^verbatim>\<open>sys.exit(n)\<close>, or an exception that nothing catches, for
  which the interpreter prints a traceback and exits with status 1.
\<close>

datatype ending = Exit int | Uncaught exn

definition exit_code :: "ending \<Rightarrow> int" where
  "exit_code t = (case t of Exit n \<Rightarrow> n | Uncaught e \<Rightarrow> 1)"

text \<open>
  \<^verbatim>\<open>__file__\<close> is absolute or relative to the directory the caller started the script
  from, and may hold \<^verbatim>\<open>.\<close> and \<^verbatim>\<open>..\<close> components. \<^verbatim>\<open>Path.parent\<close> drops the last
  component and keeps the others as they are.
\<close>

datatype pypath = Absolute path | Relative path

fun parent :: "pypath \<Rightarrow> pypath" where
  "parent (Absolute p) = Absolute (butlast p)"
| "parent (Relative p) = Relative (butlast p)"

text \<open>
  The system walks a path component by component from a directory: \<^verbatim>\<open>.\<close> stays,
  \<^verbatim>\<open>..\<close> goes to the parent (the root is its own parent), a name goes down. The
  interpreter has loaded the script through the path in \<^verbatim>\<open>__file__\<close>, so the walk to
  its directory succeeds, and \<^verbatim>\<open>os.chdir\<close> makes the directory the walk ends in the
  working directory. The caller's working directory holds names only.
\<close>

fun resolve :: "path \<Rightarrow> path \<Rightarrow> path" where
  "resolve dir [] = dir"
| "resolve dir (c # cs) =
     (if c = ''.'' then resolve dir cs
      else if c = ''..'' then resolve (butlast dir) cs
      else resolve (dir @ [c]) cs)"

fun chdir :: "pypath \<Rightarrow> 'e world \<Rightarrow> 'e world" where
  "chdir (Absolute p) w = w\<lparr>cwd := resolve [] p\<rparr>"
| "chdir (Relative p) w = w\<lparr>cwd := resolve (cwd w) p\<rparr>"

text \<open>
  Where a path leads for a caller in a given directory, and the directory the program
  changes to: where the parent of the script's path leads.
\<close>

fun location :: "pypath \<Rightarrow> path \<Rightarrow> path" where
  "location (Absolute p) caller = resolve [] p"
| "location (Relative p) caller = resolve caller p"

definition script_directory :: "pypath \<Rightarrow> path \<Rightarrow> path" where
  "script_directory script caller = location (parent script) caller"

text \<open>
  Lines 327 to 352: the stages between the probe and the report, with the
  \<^verbatim>\<open>success\<close> flag they accumulate. The build stage is skipped in fix-only mode.
\<close>

definition stages :: "'e environment \<Rightarrow> args \<Rightarrow> 'e world \<Rightarrow> (exn + bool) \<times> 'e world" where
  "stages env a w =
     (case install_dependencies env (skip_install a) w of
        (Inl e, w1) \<Rightarrow> (Inl e, w1)
      | (Inr installed, w1) \<Rightarrow>
     (case fix_typescript_config env w1 of
        (Inl e, w2) \<Rightarrow> (Inl e, w2)
      | (Inr patched, w2) \<Rightarrow>
     (case fix_react_components w2 of
        (Inl e, w3) \<Rightarrow> (Inl e, w3)
      | (Inr inventoried, w3) \<Rightarrow>
     (case (if \<not> fix_only a then build_frontend env w3 else (Inr True, w3)) of
        (Inl e, w4) \<Rightarrow> (Inl e, w4)
      | (Inr built, w4) \<Rightarrow>
     (case test_backend w4 of
        (Inl e, w5) \<Rightarrow> (Inl e, w5)
      | (Inr configured, w5) \<Rightarrow>
          (Inr (installed \<and> patched \<and> inventoried \<and> built \<and> configured), w5))))))"

text \<open>Lines 355 to 362: the report and the exit status derived from its verdict.\<close>

definition report_and_exit :: "'e environment \<Rightarrow> 'e world \<Rightarrow> ending \<times> 'e world" where
  "report_and_exit env w =
     (case generate_report env w of
        (Inl e, w') \<Rightarrow> (Uncaught e, w')
      | (Inr build_success, w') \<Rightarrow> if build_success then (Exit 0, w') else (Exit 1, w'))"

definition main :: "'e environment \<Rightarrow> args \<Rightarrow> pypath \<Rightarrow> 'e world \<Rightarrow> ending \<times> 'e world" where
  "main env a script_file w =
     (let w0 = chdir (parent script_file) w
      in case check_system_requirements env w0 of
           (Inl e, w1) \<Rightarrow> (Uncaught e, w1)
         | (Inr ok, w1) \<Rightarrow>
             if \<not> ok then (Exit 1, w1)
             else
               (case stages env a w1 of
                  (Inl e, w2) \<Rightarrow> (Uncaught e, w2)
                | (Inr success, w2) \<Rightarrow> report_and_exit env w2))"

section \<open>Staying in the script's directory\<close>

text \<open>
  An environment is quiet when its commands leave the file system as it was. One
  state is confined to the directory of another when the working directory is the
  same, every command launched in between ran there or in its \<^verbatim>\<open>frontend\<close>
  subdirectory, and, commands being quiet, no path outside that directory changed.
\<close>

definition quiet :: "'e environment \<Rightarrow> bool" where
  "quiet env = (\<forall>c d cap s. fst (snd (subprocess_run env c d cap s)) = fst s)"

definition confined :: "'e environment \<Rightarrow> 'e world \<Rightarrow> 'e world \<Rightarrow> bool" where
  "confined env w w' =
     (cwd w' = cwd w \<and>
      (\<forall>x \<in> set (launched w'). x \<in> set (launched w) \<or> snd x = cwd w \<or> snd x = cwd w @ [''frontend'']) \<and>
      (quiet env \<longrightarrow> (\<forall>q. \<not> prefix (cwd w) q \<longrightarrow> files w' q = files w q)))"

section \<open>Concrete runs\<close>

text \<open>
  A toolchain to run the pipeline on. Its hidden state records whether the auxiliary
  type package is installed: the build fails without it and, with it, writes
  \<^verbatim>\<open>dist/index.html\<close> below the directory it runs in. \<^verbatim>\<open>node --version\<close> prints the
  given text; every other command succeeds and changes nothing.
\<close>

definition toolchain_run ::
  "string \<Rightarrow> string \<Rightarrow> path \<Rightarrow> bool \<Rightarrow> filesystem \<times> bool \<Rightarrow> run_outcome \<times> filesystem \<times> bool" where
  "toolchain_run node_version command dir capture_output s =
     (case s of
        (fs, types_installed) \<Rightarrow>
          if command = ''node --version'' then
            (Returned (CompletedProcess 0 (node_version @ nl)), fs, types_installed)
          else if command = ''npm --version'' then
            (Returned (CompletedProcess 0 (''9.6.7'' @ nl)), fs, types_installed)
          else if command = ''npm install @types/node --save-dev'' then
            (Returned (CompletedProcess 0 []), fs, True)
          else if command = ''npm run build'' then
            (if types_installed then
               (Returned (CompletedProcess 0 []),
                fs(dir @ [''dist''] \<mapsto> Dir, dir @ [''dist'', ''index.html''] \<mapsto> File ''fresh''),
                True)
             else (Returned (CompletedProcess 1 []), fs, False))
          else (Returned (CompletedProcess 0 []), fs, types_installed))"

text \<open>Three configuration documents with their file texts, and the JSON library on them.\<close>

definition strict_doc :: json where
  "strict_doc = JObject [(''compilerOptions'', JObject [(''strict'', JBool True)])]"

definition strict_text :: string where
  \<open>strict_text = ''{"compilerOptions":{"strict":true}}''\<close>

definition patched_doc :: json where
  "patched_doc =
     JObject [(''compilerOptions'',
       JObject [(''strict'', JBool False),
                (''jsx'', JString ''react-jsx''),
                (''moduleResolution'', JString ''node''),
                (''allowSyntheticDefaultImports'', JBool True),
                (''esModuleInterop'', JBool True),
                (''skipLibCheck'', JBool True),
                (''noImplicitAny'', JBool False),
                (''strictNullChecks'', JBool False)])]"

definition patched_text :: string where
  \<open>patched_text =
     ''{'' @ nl @
     ''  "compilerOptions": {'' @ nl @
     ''    "strict": false,'' @ nl @
     ''    "jsx": "react-jsx",'' @ nl @
     ''    "moduleResolution": "node",'' @ nl @
     ''    "allowSyntheticDefaultImports": true,'' @ nl @
     ''    "esModuleInterop": true,'' @ nl @
     ''    "skipLibCheck": true,'' @ nl @
     ''    "noImplicitAny": false,'' @ nl @
     ''    "strictNullChecks": false'' @ nl @
     ''  }'' @ nl @
     ''}''\<close>

definition scalar_options_doc :: json where
  "scalar_options_doc = JObject [(''compilerOptions'', JString ''strict'')]"

definition scalar_options_text :: string where
  \<open>scalar_options_text = ''{"compilerOptions": "strict"}''\<close>

definition example_load :: "string \<Rightarrow> json option" where
  "example_load s =
     (if s = strict_text then Some strict_doc
      else if s = patched_text then Some patched_doc
      else if s = scalar_options_text then Some scalar_options_doc
      else None)"

definition example_dump :: "json \<Rightarrow> string" where
  "example_dump j =
     (if j = strict_doc then strict_text
      else if j = patched_doc then patched_text
      else scalar_options_text)"

definition example_env :: "string \<Rightarrow> bool environment" where
  "example_env node_version =
     \<lparr>subprocess_run = toolchain_run node_version,
      json_load = example_load,
      json_dump = example_dump,
      strftime_now = (\<lambda>e. ''2024-05-01 12:00:00'')\<rparr>"

text \<open>A command that never finishes in time, and one that cannot be launched.\<close>

definition stalled_env :: "bool environment" where
  "stalled_env =
     \<lparr>subprocess_run = (\<lambda>command dir capture_output s. (TimeoutExpired, s)),
      json_load = example_load,
      json_dump = example_dump,
      strftime_now = (\<lambda>e. ''2024-05-01 12:00:00'')\<rparr>"

definition unlaunchable_env :: "bool environment" where
  "unlaunchable_env =
     \<lparr>subprocess_run =
        (\<lambda>command dir capture_output s. (OtherException ''[Errno 13] Permission denied'', s)),
      json_load = example_load,
      json_dump = example_dump,
      strftime_now = (\<lambda>e. ''2024-05-01 12:00:00'')\<rparr>"

text \<open>
  Commands that report success and change nothing: the build produces no output.
\<close>

definition idle_env :: "bool environment" where
  "idle_env =
     \<lparr>subprocess_run =
        (\<lambda>command dir capture_output s.
           (Returned (CompletedProcess 0
              (if command = ''node --version'' then ''v20.11.0'' @ nl else [])), s)),
      json_load = example_load,
      json_dump = example_dump,
      strftime_now = (\<lambda>e. ''2024-05-01 12:00:00'')\<rparr>"

text \<open>The project lives in \<^verbatim>\<open>/srv/aqi\<close>; a world is given by its entries.\<close>

definition project_dir :: path where
  "project_dir = [''srv'', ''aqi'']"

definition world_of :: "(path \<times> entry) list \<Rightarrow> bool world" where
  "world_of entries = \<lparr>cwd = project_dir, files = map_of entries, ext = False, launched = []\<rparr>"

definition script_file :: pypath where
  "script_file = Absolute [''srv'', ''aqi'', ''build-and-fix.py'']"

text \<open>A deployment from an earlier build is still in \<^verbatim>\<open>public\<close>.\<close>

definition stale_world :: "bool world" where
  "stale_world =
     world_of [([''srv'', ''aqi'', ''frontend''], Dir),
               ([''srv'', ''aqi'', ''public''], Dir),
               ([''srv'', ''aqi'', ''public'', ''old.js''], File ''stale'')]"

text \<open>The build output is present and the report's name is taken by a directory.\<close>

definition blocked_report_world :: "bool world" where
  "blocked_report_world =
     world_of [([''srv'', ''aqi'', ''frontend''], Dir),
               ([''srv'', ''aqi'', ''frontend'', ''dist''], Dir),
               ([''srv'', ''aqi'', ''build-report.txt''], Dir)]"

definition built_world :: "bool world" where
  "built_world =
     world_of [([''srv'', ''aqi'', ''frontend''], Dir),
               ([''srv'', ''aqi'', ''frontend'', ''dist''], Dir)]"

definition config_world :: "string \<Rightarrow> bool world" where
  "config_world content =
     world_of [([''srv'', ''aqi'', ''frontend''], Dir),
               ([''srv'', ''aqi'', ''frontend'', ''tsconfig.json''], File content)]"

definition env_files_world :: "bool world" where
  "env_files_world =
     world_of [([''srv'', ''aqi'', ''.env''], File ''API_KEY=secret''),
               ([''srv'', ''aqi'', ''.env.example''], File ''API_KEY='')]"

definition fix_only_args :: args where
  "fix_only_args = \<lparr>skip_install = True, verbose = False, fix_only = True\<rparr>"

text \<open>A full run, started by a caller whose own directory is elsewhere.\<close>

definition full_args :: args where
  "full_args = \<lparr>skip_install = False, verbose = False, fix_only = False\<rparr>"

definition called_from_home :: "bool world" where
  "called_from_home = stale_world\<lparr>cwd := [''home'', ''user'']\<rparr>"

definition relative_script_file :: pypath where
  "relative_script_file = Relative [''..'', ''..'', ''srv'', ''aqi'', ''build-and-fix.py'']"

section \<open>Evaluating the concrete runs\<close>

lemmas run_defs = example_env_def toolchain_run_def world_of_def project_dir_def
  run_command_def succeeded_def exists_path_def

lemmas int_defs = py_int_def major_token_def py_strip_def py_lstrip_def py_split_first_def
  nl_def py_isspace_def py_int_isspace_def py_int_strip_def py_int_unsigned_def is_digit_def
  digit_value_def

lemmas path_defs = tsconfig_path_def dist_path_def public_path_def env_path_def
  env_example_path_def report_path_def

section \<open>The command runner's results\<close>

lemma run_command_cwd: "cwd (snd (run_command env c d cap w)) = cwd w"
  by (simp add: run_command_def Let_def split: prod.splits run_outcome.splits)

lemma run_command_launched:
  "launched (snd (run_command env c d cap w)) =
     launched w @ [(c, case d of None \<Rightarrow> cwd w | Some p \<Rightarrow> cwd w @ p)]"
  by (simp add: run_command_def Let_def split: prod.splits run_outcome.splits)

text \<open>
  Claim C7, as stated, fails: a command that times out and a command that cannot be
  launched give the caller the same value, \<^verbatim>\<open>None\<close>; the error text is printed, not
  returned.
\<close>

theorem run_command_failures_indistinguishable:
  "fst (run_command stalled_env ''npm run build'' None True built_world) = None \<and>
   fst (run_command unlaunchable_env ''npm run build'' None True built_world) = None"
  by (simp add: run_command_def stalled_env_def unlaunchable_env_def Let_def)

text \<open>
  Claim C7, amended: the command runner never raises; it returns the completed process
  when the command completed, whatever its exit status, and \<^verbatim>\<open>None\<close> both when the
  command timed out and when it failed in any other way. The caller can tell a
  completed command from a failed one, and nothing more.
\<close>

theorem run_command_returns:
  "fst (run_command env command d cap w) =
     (case fst (subprocess_run env command (case d of None \<Rightarrow> cwd w | Some p \<Rightarrow> cwd w @ p) cap
                  (files w, ext w)) of
        Returned result \<Rightarrow> Some result
      | TimeoutExpired \<Rightarrow> None
      | OtherException e \<Rightarrow> None)"
  by (simp add: run_command_def Let_def split: prod.splits run_outcome.splits)

section \<open>The probe gates the pipeline\<close>

text \<open>
  Claim C5: when \<^verbatim>\<open>node --version\<close> fails, or reports a major version below 16, the
  pipeline exits with status 1 and the version query is the only command it has
  launched: no install and no build command runs.
\<close>

theorem old_toolchain_aborts:
  assumes "run_command env ''node --version'' None True (chdir (parent script) w) = (result, w1)"
    and "\<not> succeeded result \<or>
         (\<exists>r m. result = Some r \<and> py_int (major_token (py_strip (stdout r))) = Some m \<and> m < 16)"
  shows "main env a script w = (Exit 1, w1) \<and> exit_code (Exit 1) \<noteq> 0 \<and>
         launched w1 = launched w @ [(''node --version'', cwd (chdir (parent script) w))]"
proof -
  let ?w0 = "chdir (parent script) w"
  have chk: "check_system_requirements env ?w0 = (Inr False, w1)"
    using assms by (auto simp: check_system_requirements_def)
  have l0: "launched ?w0 = launched w"
    by (cases script) simp_all
  have "launched w1 = launched ?w0 @ [(''node --version'', cwd ?w0)]"
    using run_command_launched [of env "''node --version''" None True ?w0] assms(1) by simp
  with chk l0 show ?thesis
    by (simp add: main_def Let_def exit_code_def)
qed

theorem old_toolchain_aborts_witness:
  "fst (main (example_env ''v14.21.3'') fix_only_args script_file stale_world) = Exit 1 \<and>
   launched (snd (main (example_env ''v14.21.3'') fix_only_args script_file stale_world)) =
     [(''node --version'', [''srv'', ''aqi''])]"
proof -
  let ?env = "example_env ''v14.21.3''"
  let ?w0 = "chdir (parent script_file) stale_world"
  obtain result w1 where r: "run_command ?env ''node --version'' None True ?w0 = (result, w1)"
    by (cases "run_command ?env ''node --version'' None True ?w0")
  have "result = Some (CompletedProcess 0 (''v14.21.3'' @ nl))"
    using r by (auto simp: run_defs script_file_def stale_world_def Let_def)
  moreover have "py_int (major_token (py_strip (''v14.21.3'' @ nl))) = Some 14"
    by (simp add: int_defs Let_def)
  ultimately have h: "\<not> succeeded result \<or>
      (\<exists>r m. result = Some r \<and> py_int (major_token (py_strip (stdout r))) = Some m \<and> m < 16)"
    by simp
  from old_toolchain_aborts [OF r h, of fix_only_args] show ?thesis
    by (simp add: script_file_def stale_world_def world_of_def project_dir_def)
qed

section \<open>The backend configuration stage\<close>

text \<open>
  Claim C8: with a live environment file present the stage changes nothing, whatever
  the template holds; without a template it changes nothing either; it copies the
  template exactly when the live file is absent and the template is a file.
\<close>

theorem test_backend_keeps_live:
  "(exists_path w env_path \<longrightarrow> test_backend w = (Inr True, w)) \<and>
   (\<not> exists_path w env_example_path \<longrightarrow> test_backend w = (Inr True, w)) \<and>
   (\<not> exists_path w env_path \<and> files w (cwd w @ env_example_path) = Some (File c) \<longrightarrow>
      test_backend w = (Inr True, w\<lparr>files := (files w)(cwd w @ env_path \<mapsto> File c)\<rparr>))"
  by (auto simp: test_backend_def exists_path_def copy_file_def split: option.splits entry.splits)

theorem test_backend_keeps_live_witness:
  "exists_path env_files_world env_path \<and>
   files env_files_world [''srv'', ''aqi'', ''.env.example''] = Some (File ''API_KEY='') \<and>
   test_backend env_files_world = (Inr True, env_files_world) \<and>
   files (snd (test_backend env_files_world)) [''srv'', ''aqi'', ''.env''] =
     Some (File ''API_KEY=secret'')"
proof -
  have e: "exists_path env_files_world env_path"
    by (simp add: env_files_world_def world_of_def project_dir_def exists_path_def env_path_def)
  with test_backend_keeps_live [of env_files_world]
  have "test_backend env_files_world = (Inr True, env_files_world)" by simp
  with e show ?thesis
    by (simp add: env_files_world_def world_of_def)
qed

section \<open>The build stage\<close>

text \<open>
  Claim C9: when the first build command succeeds and \<^verbatim>\<open>frontend/dist\<close> does not exist
  afterwards, the stage returns failure in the state the build command left: it
  launched the type check and one build, no remediation and no retry, and it removed
  and copied nothing.
\<close>

theorem build_without_output:
  assumes "exists_path w [''frontend'']"
    and "run_command env ''npm run type-check'' (Some [''frontend'']) True w = (type_check, w1)"
    and "run_command env ''npm run build'' (Some [''frontend'']) False w1 = (result, w2)"
    and "succeeded result"
    and "\<not> exists_path w2 dist_path"
  shows "build_frontend env w = (Inr False, w2) \<and>
         launched w2 = launched w @ [(''npm run type-check'', cwd w @ [''frontend'']),
                                     (''npm run build'', cwd w @ [''frontend''])]"
proof -
  have "build_frontend env w = (Inr False, w2)"
    using assms by (simp add: build_frontend_def deploy_def)
  moreover have "launched w1 = launched w @ [(''npm run type-check'', cwd w @ [''frontend''])]"
    using run_command_launched [of env "''npm run type-check''" "Some [''frontend'']" True w] assms(2)
    by simp
  moreover have "cwd w1 = cwd w"
    using run_command_cwd [of env "''npm run type-check''" "Some [''frontend'']" True w] assms(2)
    by simp
  moreover have "launched w2 = launched w1 @ [(''npm run build'', cwd w1 @ [''frontend''])]"
    using run_command_launched [of env "''npm run build''" "Some [''frontend'']" False w1] assms(3)
    by simp
  ultimately show ?thesis by simp
qed

theorem build_without_output_witness:
  "fst (build_frontend idle_env stale_world) = Inr False \<and>
   launched (snd (build_frontend idle_env stale_world)) =
     [(''npm run type-check'', [''srv'', ''aqi'', ''frontend'']),
      (''npm run build'', [''srv'', ''aqi'', ''frontend''])] \<and>
   files (snd (build_frontend idle_env stale_world)) [''srv'', ''aqi'', ''public'', ''old.js''] =
     Some (File ''stale'')"
proof -
  let ?w1 = "snd (run_command idle_env ''npm run type-check'' (Some [''frontend'']) True stale_world)"
  let ?r1 = "fst (run_command idle_env ''npm run type-check'' (Some [''frontend'']) True stale_world)"
  let ?w2 = "snd (run_command idle_env ''npm run build'' (Some [''frontend'']) False ?w1)"
  let ?r2 = "fst (run_command idle_env ''npm run build'' (Some [''frontend'']) False ?w1)"
  have a: "exists_path stale_world [''frontend'']"
    by (simp add: stale_world_def world_of_def project_dir_def exists_path_def)
  have b: "run_command idle_env ''npm run type-check'' (Some [''frontend'']) True stale_world = (?r1, ?w1)"
    by simp
  have c: "run_command idle_env ''npm run build'' (Some [''frontend'']) False ?w1 = (?r2, ?w2)"
    by simp
  have d: "succeeded ?r2"
    by (simp add: idle_env_def run_command_def succeeded_def Let_def)
  have f: "files ?w2 = files stale_world" and g: "cwd ?w2 = cwd stale_world"
    by (simp_all add: idle_env_def run_command_def Let_def)
  have e: "\<not> exists_path ?w2 dist_path"
    unfolding exists_path_def f g
    by (simp add: dist_path_def stale_world_def world_of_def project_dir_def)
  from build_without_output [OF a b c d e] f show ?thesis
    by (simp add: stale_world_def world_of_def project_dir_def)
qed

text \<open>
  Claim C1 fails on the code. The build fails once, the remediation installs the type
  package, and the retry succeeds and writes the build output; the stage then
  returns success without deploying: the stale file is still in \<^verbatim>\<open>public\<close> and the
  fresh one is not there. The branch for a first build that succeeds does deploy.
\<close>

theorem retry_success_skips_deployment:
  "fst (build_frontend (example_env ''v18.17.0'') stale_world) = Inr True \<and>
   files (snd (build_frontend (example_env ''v18.17.0'') stale_world))
     [''srv'', ''aqi'', ''public'', ''old.js''] = Some (File ''stale'') \<and>
   files (snd (build_frontend (example_env ''v18.17.0'') stale_world))
     [''srv'', ''aqi'', ''public'', ''index.html''] = None \<and>
   files (snd (build_frontend (example_env ''v18.17.0'') stale_world))
     [''srv'', ''aqi'', ''frontend'', ''dist'', ''index.html''] = Some (File ''fresh'') \<and>
   map fst (launched (snd (build_frontend (example_env ''v18.17.0'') stale_world))) =
     [''npm run type-check'', ''npm run build'', ''npm install @types/node --save-dev'',
      ''npm run build'']"
  by (simp add: build_frontend_def stale_world_def run_defs Let_def)

section \<open>The report decides the exit status\<close>

lemma generate_report_cases:
  assumes "generate_report env w = (r, w')"
  shows "(r = Inl IsADirectoryError \<and> files w' (cwd w' @ report_path) = Some Dir) \<or>
         (r = Inr (exists_path w' dist_path) \<and> files w' (cwd w' @ report_path) \<noteq> Some Dir)"
  using assms
  by (auto simp: generate_report_def write_text_def exists_path_def report_path_def dist_path_def
      Let_def split: prod.splits option.splits entry.splits)

lemmas stage_defs = main_def stages_def report_and_exit_def generate_report_def
  check_system_requirements_def install_dependencies_def fix_typescript_config_def
  fix_react_components_def test_backend_def write_text_def exit_code_def

text \<open>
  Claim C2, as stated, fails: the probe passes, the stages run, \<^verbatim>\<open>frontend/dist\<close> exists,
  and the report cannot be written because a directory has its name. The exception
  leaves \<^verbatim>\<open>generate_report\<close> and \<^verbatim>\<open>main\<close> uncaught, and the process exits with status 1
  although the build output is on disk.
\<close>

theorem blocked_report_exits_nonzero:
  "fst (main (example_env ''v18.17.0'') fix_only_args script_file blocked_report_world) =
     Uncaught IsADirectoryError \<and>
   exit_code (fst (main (example_env ''v18.17.0'') fix_only_args script_file blocked_report_world)) = 1 \<and>
   exists_path (snd (main (example_env ''v18.17.0'') fix_only_args script_file blocked_report_world))
     dist_path"
  by (simp add: stage_defs fix_only_args_def script_file_def blocked_report_world_def
      run_defs int_defs path_defs Let_def)

text \<open>
  Claim C2, amended: for every run that reaches the report stage, whatever the
  \<^verbatim>\<open>success\<close> flag of the earlier stages, the exit status is 0 exactly when
  \<^verbatim>\<open>frontend/dist\<close> exists at the end of the report stage and the report file could be
  written, and 1 otherwise. In particular it is 1 whenever \<^verbatim>\<open>frontend/dist\<close> is absent.
\<close>

theorem exit_code_from_report:
  assumes "check_system_requirements env (chdir (parent script) w) = (Inr True, w1)"
    and "stages env a w1 = (Inr success, w2)"
    and "main env a script w = (t, w')"
  shows "exit_code t =
           (if exists_path w' dist_path \<and> files w' (cwd w' @ report_path) \<noteq> Some Dir then 0 else 1)"
proof -
  have m: "report_and_exit env w2 = (t, w')"
    using assms by (simp add: main_def Let_def)
  obtain r where g: "generate_report env w2 = (r, w')"
    using m by (auto simp: report_and_exit_def split: prod.splits sum.splits if_splits)
  from generate_report_cases [OF g] show ?thesis
  proof
    assume "r = Inl IsADirectoryError \<and> files w' (cwd w' @ report_path) = Some Dir"
    then show ?thesis using m g by (auto simp: report_and_exit_def exit_code_def)
  next
    assume "r = Inr (exists_path w' dist_path) \<and> files w' (cwd w' @ report_path) \<noteq> Some Dir"
    then show ?thesis using m g by (auto simp: report_and_exit_def exit_code_def split: if_splits)
  qed
qed

theorem exit_code_from_report_witness:
  "exists_path (snd (main (example_env ''v18.17.0'') fix_only_args script_file built_world)) dist_path \<and>
   exit_code (fst (main (example_env ''v18.17.0'') fix_only_args script_file built_world)) = 0"
proof -
  let ?env = "example_env ''v18.17.0''"
  let ?w0 = "chdir (parent script_file) built_world"
  let ?w1 = "snd (check_system_requirements ?env ?w0)"
  let ?w2 = "snd (stages ?env fix_only_args ?w1)"
  let ?t = "fst (main ?env fix_only_args script_file built_world)"
  let ?w' = "snd (main ?env fix_only_args script_file built_world)"
  have "fst (check_system_requirements ?env ?w0) = Inr True"
    by (simp add: stage_defs script_file_def built_world_def run_defs int_defs Let_def)
  then have c: "check_system_requirements ?env ?w0 = (Inr True, ?w1)"
    by (simp add: prod_eq_iff)
  have "fst (stages ?env fix_only_args ?w1) = Inr True"
    by (simp add: stage_defs fix_only_args_def script_file_def built_world_def
        run_defs int_defs path_defs Let_def)
  then have s: "stages ?env fix_only_args ?w1 = (Inr True, ?w2)"
    by (simp add: prod_eq_iff)
  have m: "main ?env fix_only_args script_file built_world = (?t, ?w')"
    by simp
  have d: "exists_path ?w' dist_path"
    by (simp add: stage_defs fix_only_args_def script_file_def built_world_def
        run_defs int_defs path_defs Let_def)
  have r: "files ?w' (cwd ?w' @ report_path) \<noteq> Some Dir"
    by (simp add: stage_defs fix_only_args_def script_file_def built_world_def
        run_defs int_defs path_defs Let_def)
  from exit_code_from_report [OF c s m] d r show ?thesis
    by simp
qed

section \<open>Patching the configuration\<close>

lemma map_of_dict_set: "map_of (dict_set k v d) = (map_of d)(k \<mapsto> v)"
  by (induction d) auto

lemma dict_update_other_keys:
  "k \<notin> fst ` set other \<Longrightarrow> map_of (dict_update d other) k = map_of d k"
  by (induction d other rule: dict_update.induct) (auto simp: map_of_dict_set)

lemma dict_update_assigned:
  "distinct (map fst other) \<Longrightarrow> (k, v) \<in> set other \<Longrightarrow> map_of (dict_update d other) k = Some v"
proof (induction d other rule: dict_update.induct)
  case (1 d)
  then show ?case by simp
next
  case (2 d k' v' other)
  show ?case
  proof (cases "(k, v) = (k', v')")
    case True
    then have "k \<notin> fst ` set other" using "2.prems"(1) by auto
    then show ?thesis using True by (simp add: dict_update_other_keys map_of_dict_set)
  next
    case False
    then show ?thesis using 2 by auto
  qed
qed

lemma dict_set_same: "map_of d k = Some v \<Longrightarrow> dict_set k v d = d"
  by (induction d) (auto split: if_splits)

lemma dict_update_same:
  "(\<And>k v. (k, v) \<in> set other \<Longrightarrow> map_of d k = Some v) \<Longrightarrow> dict_update d other = d"
proof (induction d other rule: dict_update.induct)
  case (1 d)
  then show ?case by simp
next
  case (2 d k v other)
  have "dict_set k v d = d" using "2.prems" [of k v] by (simp add: dict_set_same)
  then show ?case using 2 by simp
qed

lemma overrides_distinct: "distinct (map fst overrides)"
  by (simp add: overrides_def)

lemma dict_update_overrides_fixed:
  "dict_update (dict_update d overrides) overrides = dict_update d overrides"
  by (rule dict_update_same) (simp add: dict_update_assigned overrides_distinct)

lemma patch_fixed: "patch D = Inr D' \<Longrightarrow> patch D' = Inr D'"
  by (auto simp: patch_def map_of_dict_set dict_set_same dict_update_overrides_fixed
      split: json.splits option.splits)

lemma patch_example: "patch strict_doc = Inr patched_doc"
  by (simp add: patch_def strict_doc_def patched_doc_def overrides_def)

lemmas config_defs = fix_typescript_config_def fix_typescript_config_try_def exists_path_def
  read_text_def write_text_def

lemma example_texts_differ:
  "strict_text \<noteq> patched_text" "scalar_options_text \<noteq> strict_text"
  "scalar_options_text \<noteq> patched_text"
  by (simp_all add: strict_text_def patched_text_def scalar_options_text_def nl_def)

lemma example_docs_differ: "strict_doc \<noteq> patched_doc"
  by (simp add: strict_doc_def patched_doc_def)

text \<open>
  Claim C3, as stated, fails: a configuration file that exists and parses, whose
  \<^verbatim>\<open>compilerOptions\<close> entry is a string rather than an object, is not patched. The
  \<^verbatim>\<open>update\<close> call raises, the stage catches the exception and returns failure, and the
  file keeps its text.
\<close>

theorem scalar_options_not_patched:
  "json_load (example_env ''v18.17.0'') scalar_options_text =
     Some (JObject [(''compilerOptions'', JString ''strict'')]) \<and>
   fst (fix_typescript_config (example_env ''v18.17.0'') (config_world scalar_options_text)) =
     Inr False \<and>
   files (snd (fix_typescript_config (example_env ''v18.17.0'') (config_world scalar_options_text)))
     [''srv'', ''aqi'', ''frontend'', ''tsconfig.json''] = Some (File scalar_options_text)"
  by (simp add: config_defs config_world_def world_of_def project_dir_def tsconfig_path_def
      example_env_def example_load_def example_texts_differ scalar_options_doc_def patch_def)

text \<open>
  Claim C3, amended: for every configuration file that exists and parses to a JSON
  object whose \<^verbatim>\<open>compilerOptions\<close> entry is absent or is itself an object, the stage
  succeeds and writes a document in which every override key has its fixed value
  inside \<^verbatim>\<open>compilerOptions\<close>, every other \<^verbatim>\<open>compilerOptions\<close> key keeps its value, and
  every other top-level key keeps its value. For every file that parses to anything
  else, the stage returns failure and leaves the whole state, the file included, as
  it was. The document with only \<^verbatim>\<open>strict: true\<close> becomes the document of the
  scenario, keys in that order.
\<close>

theorem patch_merges_overrides:
  assumes "files w (cwd w @ tsconfig_path) = Some (File content)"
    and "json_load env content = Some D"
  shows "(\<forall>members options.
            D = JObject members \<and>
            (map_of members ''compilerOptions'' = None \<and> options = [] \<or>
             map_of members ''compilerOptions'' = Some (JObject options)) \<longrightarrow>
            (\<exists>members' options'.
               fix_typescript_config env w =
                 (Inr True,
                  w\<lparr>files := (files w)(cwd w @ tsconfig_path \<mapsto>
                               File (json_dump env (JObject members')))\<rparr>) \<and>
               map_of members' ''compilerOptions'' = Some (JObject options') \<and>
               (\<forall>(k, v) \<in> set overrides. map_of options' k = Some v) \<and>
               (\<forall>k. k \<notin> fst ` set overrides \<longrightarrow> map_of options' k = map_of options k) \<and>
               (\<forall>k. k \<noteq> ''compilerOptions'' \<longrightarrow> map_of members' k = map_of members k))) \<and>
         (\<not> patchable D \<longrightarrow> fix_typescript_config env w = (Inr False, w)) \<and>
         (patchable D \<longleftrightarrow>
            (\<exists>members. D = JObject members \<and>
               (map_of members ''compilerOptions'' = None \<or>
                (\<exists>options. map_of members ''compilerOptions'' = Some (JObject options))))) \<and>
         patch strict_doc = Inr patched_doc"
proof -
  have merged: "\<exists>members' options'.
      fix_typescript_config env w =
        (Inr True,
         w\<lparr>files := (files w)(cwd w @ tsconfig_path \<mapsto> File (json_dump env (JObject members')))\<rparr>) \<and>
      map_of members' ''compilerOptions'' = Some (JObject options') \<and>
      (\<forall>(k, v) \<in> set overrides. map_of options' k = Some v) \<and>
      (\<forall>k. k \<notin> fst ` set overrides \<longrightarrow> map_of options' k = map_of options k) \<and>
      (\<forall>k. k \<noteq> ''compilerOptions'' \<longrightarrow> map_of members' k = map_of members k)"
    if d: "D = JObject members"
      and o: "map_of members ''compilerOptions'' = None \<and> options = [] \<or>
              map_of members ''compilerOptions'' = Some (JObject options)"
    for members options
  proof -
    let ?options' = "dict_update options overrides"
    let ?members' = "dict_set ''compilerOptions'' (JObject ?options') members"
    have p: "patch (JObject members) = Inr (JObject ?members')"
      using o by (auto simp: patch_def)
    have "fix_typescript_config env w =
            (Inr True,
             w\<lparr>files := (files w)(cwd w @ tsconfig_path \<mapsto> File (json_dump env (JObject ?members')))\<rparr>)"
      using assms d p by (simp add: config_defs)
    moreover have "map_of ?members' ''compilerOptions'' = Some (JObject ?options')"
      by (simp add: map_of_dict_set)
    moreover have "\<forall>(k, v) \<in> set overrides. map_of ?options' k = Some v"
      using dict_update_assigned [OF overrides_distinct] by auto
    moreover have "\<forall>k. k \<notin> fst ` set overrides \<longrightarrow> map_of ?options' k = map_of options k"
      by (simp add: dict_update_other_keys)
    moreover have "\<forall>k. k \<noteq> ''compilerOptions'' \<longrightarrow> map_of ?members' k = map_of members k"
      by (simp add: map_of_dict_set)
    ultimately show ?thesis by blast
  qed
  have refused: "fix_typescript_config env w = (Inr False, w)" if "\<not> patchable D"
  proof -
    have "patch D = Inl AttributeError"
      using that by (auto simp: patch_def patchable_def split: json.splits option.splits)
    then show ?thesis using assms by (simp add: config_defs)
  qed
  have shape: "patchable D \<longleftrightarrow>
      (\<exists>members. D = JObject members \<and>
         (map_of members ''compilerOptions'' = None \<or>
          (\<exists>options. map_of members ''compilerOptions'' = Some (JObject options))))"
    by (auto simp: patchable_def split: json.splits option.splits)
  show ?thesis using merged refused shape patch_example by blast
qed

theorem patch_merges_overrides_witness:
  "json_load (example_env ''v18.17.0'') strict_text = Some strict_doc \<and>
   fst (fix_typescript_config (example_env ''v18.17.0'') (config_world strict_text)) = Inr True \<and>
   files (snd (fix_typescript_config (example_env ''v18.17.0'') (config_world strict_text)))
     [''srv'', ''aqi'', ''frontend'', ''tsconfig.json''] = Some (File patched_text) \<and>
   json_load (example_env ''v18.17.0'') scalar_options_text = Some scalar_options_doc \<and>
   \<not> patchable scalar_options_doc \<and>
   fix_typescript_config (example_env ''v18.17.0'') (config_world scalar_options_text) =
     (Inr False, config_world scalar_options_text)"
proof -
  let ?env = "example_env ''v18.17.0''"
  let ?w = "config_world strict_text"
  let ?v = "config_world scalar_options_text"
  let ?members = "[(''compilerOptions'', JObject [(''strict'', JBool True)])]"
  have f: "files ?w (cwd ?w @ tsconfig_path) = Some (File strict_text)"
    by (simp add: config_world_def world_of_def project_dir_def tsconfig_path_def)
  have l: "json_load ?env strict_text = Some strict_doc"
    by (simp add: example_env_def example_load_def)
  have d: "strict_doc = JObject ?members \<and>
           (map_of ?members ''compilerOptions'' = None \<and> [(''strict'', JBool True)] = [] \<or>
            map_of ?members ''compilerOptions'' = Some (JObject [(''strict'', JBool True)]))"
    by (simp add: strict_doc_def)
  from patch_merges_overrides [OF f l] d
  have "\<exists>members' options'.
      fix_typescript_config ?env ?w =
        (Inr True,
         ?w\<lparr>files := (files ?w)(cwd ?w @ tsconfig_path \<mapsto> File (json_dump ?env (JObject members')))\<rparr>) \<and>
      map_of members' ''compilerOptions'' = Some (JObject options') \<and>
      (\<forall>(k, v) \<in> set overrides. map_of options' k = Some v) \<and>
      (\<forall>k. k \<notin> fst ` set overrides \<longrightarrow> map_of options' k = map_of [(''strict'', JBool True)] k) \<and>
      (\<forall>k. k \<noteq> ''compilerOptions'' \<longrightarrow> map_of members' k = map_of ?members k)"
    by blast
  then have one: "fst (fix_typescript_config ?env ?w) = Inr True" by auto
  have two: "files (snd (fix_typescript_config ?env ?w))
     [''srv'', ''aqi'', ''frontend'', ''tsconfig.json''] = Some (File patched_text)"
    using f l patch_example
    by (simp add: config_defs example_env_def example_dump_def
        example_docs_differ [symmetric] config_world_def world_of_def project_dir_def
        tsconfig_path_def)
  have g: "files ?v (cwd ?v @ tsconfig_path) = Some (File scalar_options_text)"
    by (simp add: config_world_def world_of_def project_dir_def tsconfig_path_def)
  have m: "json_load ?env scalar_options_text = Some scalar_options_doc"
    by (simp add: example_env_def example_load_def example_texts_differ)
  have n: "\<not> patchable scalar_options_doc"
    by (simp add: patchable_def scalar_options_doc_def)
  from patch_merges_overrides [OF g m] n
  have three: "fix_typescript_config ?env ?v = (Inr False, ?v)" by blast
  show ?thesis using l one two m n three by simp
qed

text \<open>
  Claim C4: running the patch stage a second time leaves the state the first run
  produced, file content included, for every starting state. The JSON library is
  asked for one thing: parsing the text it printed for the patched document gives
  that document back.
\<close>

theorem patch_idempotent:
  assumes "\<And>content D D'. files w (cwd w @ tsconfig_path) = Some (File content) \<Longrightarrow>
             json_load env content = Some D \<Longrightarrow> patch D = Inr D' \<Longrightarrow>
             json_load env (json_dump env D') = Some D'"
  shows "snd (fix_typescript_config env (snd (fix_typescript_config env w))) =
         snd (fix_typescript_config env w)"
proof (cases "\<exists>content D D'. files w (cwd w @ tsconfig_path) = Some (File content) \<and>
                json_load env content = Some D \<and> patch D = Inr D'")
  case True
  then obtain content D D' where f: "files w (cwd w @ tsconfig_path) = Some (File content)"
    and l: "json_load env content = Some D" and p: "patch D = Inr D'" by blast
  let ?w1 = "w\<lparr>files := (files w)(cwd w @ tsconfig_path \<mapsto> File (json_dump env D'))\<rparr>"
  have one: "fix_typescript_config env w = (Inr True, ?w1)"
    using f l p by (simp add: config_defs)
  have l': "json_load env (json_dump env D') = Some D'" using assms [OF f l p] .
  have p': "patch D' = Inr D'" using patch_fixed [OF p] .
  have two: "fix_typescript_config env ?w1 = (Inr True, ?w1)"
    using l' p' by (simp add: config_defs)
  show ?thesis using one two by simp
next
  case False
  then have "fix_typescript_config env w = (Inr True, w) \<or> fix_typescript_config env w = (Inr False, w)"
    by (auto simp: config_defs split: option.splits entry.splits sum.splits)
  then show ?thesis by auto
qed

theorem patch_idempotent_witness:
  "files (snd (fix_typescript_config (example_env ''v18.17.0'') (config_world strict_text)))
     [''srv'', ''aqi'', ''frontend'', ''tsconfig.json''] = Some (File patched_text) \<and>
   snd (fix_typescript_config (example_env ''v18.17.0'')
          (snd (fix_typescript_config (example_env ''v18.17.0'') (config_world strict_text)))) =
   snd (fix_typescript_config (example_env ''v18.17.0'') (config_world strict_text))"
proof -
  let ?env = "example_env ''v18.17.0''"
  let ?w = "config_world strict_text"
  have f: "files ?w (cwd ?w @ tsconfig_path) = Some (File strict_text)"
    by (simp add: config_world_def world_of_def project_dir_def tsconfig_path_def)
  have l: "json_load ?env strict_text = Some strict_doc"
    by (simp add: example_env_def example_load_def)
  have roundtrip: "json_load ?env (json_dump ?env D') = Some D'"
    if "files ?w (cwd ?w @ tsconfig_path) = Some (File content)"
      and "json_load ?env content = Some D" and "patch D = Inr D'" for content D D'
  proof -
    have "content = strict_text" using that(1) f by simp
    then have "D = strict_doc" using that(2) l by simp
    then have "D' = patched_doc" using that(3) patch_example by simp
    then show ?thesis
      by (simp add: example_env_def example_dump_def example_load_def example_docs_differ
          example_docs_differ [symmetric] example_texts_differ example_texts_differ [symmetric])
  qed
  have "files (snd (fix_typescript_config ?env ?w))
     [''srv'', ''aqi'', ''frontend'', ''tsconfig.json''] = Some (File patched_text)"
    using f l patch_example
    by (simp add: config_defs example_env_def example_dump_def example_docs_differ [symmetric]
        config_world_def world_of_def project_dir_def tsconfig_path_def)
  with patch_idempotent [of ?w ?env, OF roundtrip] show ?thesis by simp
qed

section \<open>Which exceptions leave a component\<close>

lemma deploy_raises:
  "fst (deploy w) = Inl NotADirectoryError \<longleftrightarrow> deploy_blocked w"
  by (auto simp: deploy_def deploy_blocked_def is_file_def rmtree_def copytree_def exists_path_def
      dist_path_def public_path_def split: option.splits entry.splits sum.splits)

lemma deploy_shape:
  "fst (deploy w) = Inl NotADirectoryError \<or> (\<exists>b. fst (deploy w) = Inr b)"
  by (auto simp: deploy_def rmtree_def copytree_def exists_path_def dist_path_def public_path_def
      split: option.splits entry.splits sum.splits)

lemma build_frontend_shape:
  "fst (build_frontend env w) = Inl NotADirectoryError \<or> (\<exists>b. fst (build_frontend env w) = Inr b)"
proof -
  have "\<forall>w'::'a world. fst (deploy w') = Inl NotADirectoryError \<or> (\<exists>b. fst (deploy w') = Inr b)"
    using deploy_shape by blast
  then show ?thesis
    by (auto simp: build_frontend_def split: prod.splits)
qed

lemma build_frontend_raises:
  "fst (build_frontend env w) = Inl NotADirectoryError \<longleftrightarrow>
     exists_path w [''frontend''] \<and>
     succeeded (fst (run_command env ''npm run build'' (Some [''frontend'']) False
       (snd (run_command env ''npm run type-check'' (Some [''frontend'']) True w)))) \<and>
     deploy_blocked (snd (run_command env ''npm run build'' (Some [''frontend'']) False
       (snd (run_command env ''npm run type-check'' (Some [''frontend'']) True w))))"
proof -
  have "\<forall>w'::'a world. fst (deploy w') = Inl NotADirectoryError \<longleftrightarrow> deploy_blocked w'"
    using deploy_raises by blast
  then show ?thesis
    by (auto simp: build_frontend_def split: prod.splits)
qed

lemma fix_typescript_config_returns: "\<exists>b. fst (fix_typescript_config env w) = Inr b"
  by (auto simp: fix_typescript_config_def split: prod.splits sum.splits)

lemma install_dependencies_returns: "\<exists>b. fst (install_dependencies env skip w) = Inr b"
  by (auto simp: install_dependencies_def split: prod.splits)

lemma check_system_requirements_raises:
  "fst (check_system_requirements env w) = Inl ValueError \<longleftrightarrow>
     (\<exists>r. fst (run_command env ''node --version'' None True w) = Some r \<and> returncode r = 0 \<and>
          py_int (major_token (py_strip (stdout r))) = None)"
  by (auto simp: check_system_requirements_def succeeded_def split: prod.splits option.splits)

lemma check_system_requirements_shape:
  "fst (check_system_requirements env w) = Inl ValueError \<or>
   (\<exists>b. fst (check_system_requirements env w) = Inr b)"
  by (auto simp: check_system_requirements_def succeeded_def split: prod.splits option.splits)

lemma test_backend_raises:
  "fst (test_backend w) = Inl IsADirectoryError \<longleftrightarrow>
     \<not> exists_path w env_path \<and> files w (cwd w @ env_example_path) = Some Dir"
  by (auto simp: test_backend_def copy_file_def exists_path_def split: option.splits entry.splits)

lemma test_backend_shape:
  "fst (test_backend w) = Inl IsADirectoryError \<or> fst (test_backend w) = Inr True"
  by (auto simp: test_backend_def copy_file_def exists_path_def split: option.splits entry.splits)

lemma generate_report_shape:
  "fst (generate_report env w) = Inl IsADirectoryError \<or> (\<exists>b. fst (generate_report env w) = Inr b)"
  using generate_report_cases [of env w "fst (generate_report env w)" "snd (generate_report env w)"]
  by auto

lemma generate_report_raises:
  "fst (generate_report env w) = Inl IsADirectoryError \<longleftrightarrow>
     files (snd (run_command env ''npm --version'' None True
              (snd (run_command env ''node --version'' None True w))))
       (cwd w @ report_path) = Some Dir"
proof -
  let ?w1 = "snd (run_command env ''node --version'' None True w)"
  let ?w2 = "snd (run_command env ''npm --version'' None True ?w1)"
  have c: "cwd ?w2 = cwd w"
    by (simp add: run_command_cwd)
  show ?thesis
    using c
    by (auto simp: generate_report_def write_text_def Let_def
        split: prod.splits option.splits entry.splits)
qed

lemma run_command_none:
  "fst (run_command env command d cap w) = None \<longleftrightarrow>
     (\<forall>result. fst (subprocess_run env command (case d of None \<Rightarrow> cwd w | Some p \<Rightarrow> cwd w @ p)
                      cap (files w, ext w)) \<noteq> Returned result)"
  by (auto simp: run_command_def Let_def split: prod.splits run_outcome.splits)

text \<open>
  Claim C6, as stated, fails: \<^verbatim>\<open>node --version\<close> exits with status 0 and prints text whose
  leading token is not an integer; \<^verbatim>\<open>int\<close> raises \<^verbatim>\<open>ValueError\<close> at line 68, outside any
  \<^verbatim>\<open>try\<close>, and the exception leaves the prober.
\<close>

theorem prober_raises_on_unparsable_version:
  "fst (check_system_requirements (example_env ''not-a-version'') built_world) = Inl ValueError"
  by (simp add: check_system_requirements_def built_world_def run_defs int_defs Let_def)

text \<open>
  Claim C6, amended, for file systems of regular files and directories (no permission
  or device errors) and the failures of \<^verbatim>\<open>subprocess.run\<close> that \<^verbatim>\<open>except Exception\<close>
  catches. The command runner returns a value for every outcome of the command,
  \<^verbatim>\<open>None\<close> exactly when \<^verbatim>\<open>subprocess.run\<close> raised. The install stage, the configuration
  patcher and the inventory check always return a boolean. The prober returns a
  boolean, or lets \<^verbatim>\<open>ValueError\<close> escape exactly when the version query succeeded and
  \<^verbatim>\<open>int\<close> rejects its major-version token. The build stage returns a boolean, or lets
  \<^verbatim>\<open>NotADirectoryError\<close> escape exactly when the first build succeeded and left a
  build output that is a regular file, or a build output beside a deployment target
  that is a regular file. The backend-config stage returns true, or lets
  \<^verbatim>\<open>IsADirectoryError\<close> escape exactly when the live file is absent and the template
  is a directory. The reporter returns a boolean, or lets \<^verbatim>\<open>IsADirectoryError\<close> escape
  exactly when the report's name is a directory after its two version queries.
\<close>

theorem components_raise_only_as_listed:
  "(fst (run_command env command d cap w) = None \<longleftrightarrow>
      (\<forall>result. fst (subprocess_run env command
                        (case d of None \<Rightarrow> cwd w | Some p \<Rightarrow> cwd w @ p) cap (files w, ext w)) \<noteq>
                Returned result)) \<and>
   (\<exists>b. fst (install_dependencies env skip w) = Inr b) \<and>
   (\<exists>b. fst (fix_typescript_config env w) = Inr b) \<and>
   fst (fix_react_components w) = Inr True \<and>
   (fst (check_system_requirements env w) = Inl ValueError \<or>
      (\<exists>b. fst (check_system_requirements env w) = Inr b)) \<and>
   (fst (check_system_requirements env w) = Inl ValueError \<longleftrightarrow>
      (\<exists>r. fst (run_command env ''node --version'' None True w) = Some r \<and> returncode r = 0 \<and>
           py_int (major_token (py_strip (stdout r))) = None)) \<and>
   (fst (build_frontend env w) = Inl NotADirectoryError \<or>
      (\<exists>b. fst (build_frontend env w) = Inr b)) \<and>
   (fst (build_frontend env w) = Inl NotADirectoryError \<longleftrightarrow>
      exists_path w [''frontend''] \<and>
      succeeded (fst (run_command env ''npm run build'' (Some [''frontend'']) False
        (snd (run_command env ''npm run type-check'' (Some [''frontend'']) True w)))) \<and>
      deploy_blocked (snd (run_command env ''npm run build'' (Some [''frontend'']) False
        (snd (run_command env ''npm run type-check'' (Some [''frontend'']) True w))))) \<and>
   (fst (test_backend w) = Inl IsADirectoryError \<or> fst (test_backend w) = Inr True) \<and>
   (fst (test_backend w) = Inl IsADirectoryError \<longleftrightarrow>
      \<not> exists_path w env_path \<and> files w (cwd w @ env_example_path) = Some Dir) \<and>
   (fst (generate_report env w) = Inl IsADirectoryError \<or>
      (\<exists>b. fst (generate_report env w) = Inr b)) \<and>
   (fst (generate_report env w) = Inl IsADirectoryError \<longleftrightarrow>
      files (snd (run_command env ''npm --version'' None True
               (snd (run_command env ''node --version'' None True w))))
        (cwd w @ report_path) = Some Dir)"
proof -
  have "fst (fix_react_components w) = Inr True"
    by (simp add: fix_react_components_def)
  then show ?thesis
    using run_command_none [of env command d cap w]
      install_dependencies_returns [of env skip w] fix_typescript_config_returns [of env w]
      check_system_requirements_shape [of env w] check_system_requirements_raises [of env w]
      build_frontend_shape [of env w] build_frontend_raises [of env w]
      test_backend_shape [of w] test_backend_raises [of w]
      generate_report_shape [of env w] generate_report_raises [of env w]
    by simp
qed

section \<open>The working directory of the run\<close>

lemma confined_refl: "confined env w w"
  by (simp add: confined_def)

lemma confined_trans: "confined env w w1 \<Longrightarrow> confined env w1 w2 \<Longrightarrow> confined env w w2"
  by (auto simp: confined_def)

lemma run_command_confined:
  assumes "run_command env c d cap w = (r, w1)" and "d = None \<or> d = Some [''frontend'']"
  shows "confined env w w1"
proof -
  have "cwd w1 = cwd w"
    using run_command_cwd [of env c d cap w] assms(1) by simp
  moreover have "launched w1 = launched w @ [(c, case d of None \<Rightarrow> cwd w | Some p \<Rightarrow> cwd w @ p)]"
    using run_command_launched [of env c d cap w] assms(1) by simp
  moreover have "files w1 = files w" if "quiet env"
  proof -
    have "files w1 = fst (snd (subprocess_run env c (case d of None \<Rightarrow> cwd w | Some p \<Rightarrow> cwd w @ p) cap (files w, ext w)))"
      using assms(1) by (auto simp: run_command_def Let_def split: prod.splits run_outcome.splits)
    then show ?thesis using that by (simp add: quiet_def)
  qed
  ultimately show ?thesis using assms(2) by (auto simp: confined_def)
qed

lemma outside_differs: "\<not> prefix xs q \<Longrightarrow> xs @ p \<noteq> q"
  by auto

lemma rmtree_confined: "rmtree p w = Inr w' \<Longrightarrow> confined env w w'"
  by (auto simp: rmtree_def confined_def split: option.splits entry.splits dest: append_prefixD)

lemma copytree_confined: "copytree src dst w = Inr w' \<Longrightarrow> confined env w w'"
  by (auto simp: copytree_def confined_def split: option.splits entry.splits if_splits
      dest: append_prefixD)

lemma copy_file_confined: "copy_file src dst w = Inr w' \<Longrightarrow> confined env w w'"
  by (auto simp: copy_file_def confined_def outside_differs split: option.splits entry.splits)

lemma write_text_confined: "write_text p c w = Inr w' \<Longrightarrow> confined env w w'"
  by (auto simp: write_text_def confined_def outside_differs split: option.splits entry.splits)

lemma install_dependencies_confined: "confined env w (snd (install_dependencies env skip w))"
proof (cases skip)
  case True
  then show ?thesis by (simp add: install_dependencies_def confined_refl)
next
  case False
  obtain r1 w1 where 1: "run_command env ''npm install'' None False w = (r1, w1)"
    by (cases "run_command env ''npm install'' None False w")
  obtain r2 w2 where 2: "run_command env ''npm install'' (Some [''frontend'']) False w1 = (r2, w2)"
    by (cases "run_command env ''npm install'' (Some [''frontend'']) False w1")
  have c1: "confined env w w1" using run_command_confined [OF 1] by simp
  have c2: "confined env w w2" using confined_trans [OF c1 run_command_confined [OF 2]] by simp
  show ?thesis using False 1 2 c1 c2 by (simp add: install_dependencies_def)
qed

lemma fix_typescript_config_confined: "confined env w (snd (fix_typescript_config env w))"
  by (auto simp: fix_typescript_config_def fix_typescript_config_try_def confined_refl
      write_text_confined split: sum.splits option.splits prod.splits)

lemma deploy_confined: "confined env w (snd (deploy w))"
  by (auto simp: deploy_def confined_refl split: sum.splits if_splits
      intro: confined_trans rmtree_confined copytree_confined)

lemma build_frontend_confined: "confined env w (snd (build_frontend env w))"
proof (cases "exists_path w [''frontend'']")
  case False
  then show ?thesis by (simp add: build_frontend_def confined_refl)
next
  case True
  obtain r1 w1 where 1: "run_command env ''npm run type-check'' (Some [''frontend'']) True w = (r1, w1)"
    by (cases "run_command env ''npm run type-check'' (Some [''frontend'']) True w")
  obtain r2 w2 where 2: "run_command env ''npm run build'' (Some [''frontend'']) False w1 = (r2, w2)"
    by (cases "run_command env ''npm run build'' (Some [''frontend'']) False w1")
  obtain r3 w3 where 3: "run_command env ''npm install @types/node --save-dev'' (Some [''frontend'']) True w2 = (r3, w3)"
    by (cases "run_command env ''npm install @types/node --save-dev'' (Some [''frontend'']) True w2")
  obtain r4 w4 where 4: "run_command env ''npm run build'' (Some [''frontend'']) False w3 = (r4, w4)"
    by (cases "run_command env ''npm run build'' (Some [''frontend'']) False w3")
  have c2: "confined env w w2"
    using confined_trans [OF run_command_confined [OF 1] run_command_confined [OF 2]] by simp
  have c4: "confined env w w4"
    using confined_trans [OF c2 confined_trans [OF run_command_confined [OF 3] run_command_confined [OF 4]]]
    by simp
  have cd: "confined env w (snd (deploy w2))"
    using confined_trans [OF c2 deploy_confined] .
  show ?thesis using True 1 2 3 4 c4 cd by (simp add: build_frontend_def)
qed

lemma test_backend_confined: "confined env w (snd (test_backend w))"
  by (auto simp: test_backend_def confined_refl copy_file_confined split: sum.splits)

lemma generate_report_confined: "confined env w (snd (generate_report env w))"
proof -
  obtain r1 w1 where 1: "run_command env ''node --version'' None True w = (r1, w1)"
    by (cases "run_command env ''node --version'' None True w")
  obtain r2 w2 where 2: "run_command env ''npm --version'' None True w1 = (r2, w2)"
    by (cases "run_command env ''npm --version'' None True w1")
  have c2: "confined env w w2"
    using confined_trans [OF run_command_confined [OF 1] run_command_confined [OF 2]] by simp
  show ?thesis using 1 2 c2
    by (auto simp: generate_report_def Let_def split: sum.splits
        intro: confined_trans write_text_confined)
qed

lemma check_system_requirements_confined: "confined env w (snd (check_system_requirements env w))"
proof -
  obtain r1 w1 where 1: "run_command env ''node --version'' None True w = (r1, w1)"
    by (cases "run_command env ''node --version'' None True w")
  obtain r2 w2 where 2: "run_command env ''npm --version'' None True w1 = (r2, w2)"
    by (cases "run_command env ''npm --version'' None True w1")
  have c1: "confined env w w1" using run_command_confined [OF 1] by simp
  have c2: "confined env w w2"
    using confined_trans [OF c1 run_command_confined [OF 2]] by simp
  show ?thesis using 1 2 c1 c2
    by (auto simp: check_system_requirements_def split: option.splits)
qed

lemma stages_confined: "confined env w (snd (stages env a w))"
proof -
  let ?w1 = "snd (install_dependencies env (skip_install a) w)"
  let ?w2 = "snd (fix_typescript_config env ?w1)"
  let ?w4 = "snd (build_frontend env ?w2)"
  have c1: "confined env w ?w1" by (rule install_dependencies_confined)
  have c2: "confined env w ?w2" using confined_trans [OF c1 fix_typescript_config_confined] .
  have c4: "confined env w ?w4" using confined_trans [OF c2 build_frontend_confined] .
  have c5: "confined env w (snd (test_backend ?w4))" using confined_trans [OF c4 test_backend_confined] .
  have c5': "confined env w (snd (test_backend ?w2))" using confined_trans [OF c2 test_backend_confined] .
  show ?thesis using c1 c2 c4 c5 c5'
    by (auto simp: stages_def fix_react_components_def split: prod.splits sum.splits if_splits)
qed

lemma report_and_exit_confined: "confined env w (snd (report_and_exit env w))"
  using generate_report_confined [of env w]
  by (auto simp: report_and_exit_def split: prod.splits sum.splits)

lemma main_confined: "confined env (chdir (parent script) w) (snd (main env a script w))"
proof -
  let ?w0 = "chdir (parent script) w"
  let ?w1 = "snd (check_system_requirements env ?w0)"
  let ?w2 = "snd (stages env a ?w1)"
  have c1: "confined env ?w0 ?w1" by (rule check_system_requirements_confined)
  have c2: "confined env ?w0 ?w2" using confined_trans [OF c1 stages_confined] .
  have c3: "confined env ?w0 (snd (report_and_exit env ?w2))"
    using confined_trans [OF c2 report_and_exit_confined] .
  show ?thesis using c1 c2 c3
    by (auto simp: main_def Let_def split: prod.splits sum.splits)
qed

lemma chdir_parent: "chdir (parent script) w = w\<lparr>cwd := script_directory script (cwd w)\<rparr>"
  by (cases script) (simp_all add: script_directory_def)

lemma resolve_name:
  "f \<noteq> ''.'' \<Longrightarrow> f \<noteq> ''..'' \<Longrightarrow> resolve dir (p @ [f]) = resolve dir p @ [f]"
  by (induction p arbitrary: dir) simp_all

lemma location_of_script:
  assumes "script = Absolute p \<or> script = Relative p"
    and "p \<noteq> []" and "last p \<noteq> ''.''" and "last p \<noteq> ''..''"
  shows "location script caller = script_directory script caller @ [last p]"
proof -
  have "p = butlast p @ [last p]" using assms(2) by simp
  then have "resolve dir p = resolve dir (butlast p) @ [last p]" for dir
    using resolve_name [OF assms(3,4), of dir "butlast p"] by simp
  then show ?thesis using assms(1) by (auto simp: script_directory_def)
qed

text \<open>
  Claim C10: the program changes to the directory that holds the script before the
  first stage, and stays there. At the end of every run the working directory is
  where the parent of the script's path leads from the caller's directory, which is
  the directory holding the script; every command of the run was launched there or
  in its \<^verbatim>\<open>frontend\<close> subdirectory; where the commands themselves change no file, no
  path outside that directory has changed; and a run started from any other
  directory, through any path that leads to the same script directory, is the same
  run.
\<close>

theorem runs_in_script_directory:
  assumes "main env a script w = (t, w')"
  shows "cwd w' = script_directory script (cwd w) \<and>
         (\<forall>x \<in> set (launched w').
            x \<in> set (launched w) \<or> snd x = cwd w' \<or> snd x = cwd w' @ [''frontend'']) \<and>
         ((\<forall>c d cap s. fst (snd (subprocess_run env c d cap s)) = fst s) \<longrightarrow>
            (\<forall>q. \<not> prefix (cwd w') q \<longrightarrow> files w' q = files w q)) \<and>
         (\<forall>script' caller.
            script_directory script' caller = script_directory script (cwd w) \<longrightarrow>
            main env a script' (w\<lparr>cwd := caller\<rparr>) = main env a script w) \<and>
         (\<forall>p. (script = Absolute p \<or> script = Relative p) \<and> p \<noteq> [] \<and>
              last p \<noteq> ''.'' \<and> last p \<noteq> ''..'' \<longrightarrow>
              location script (cwd w) = script_directory script (cwd w) @ [last p])"
proof -
  let ?w0 = "chdir (parent script) w"
  have c: "confined env ?w0 w'"
    using main_confined [of env script w a] assms by simp
  have d: "cwd ?w0 = script_directory script (cwd w)"
    and l: "launched ?w0 = launched w" and f: "files ?w0 = files w"
    by (simp_all add: chdir_parent)
  have i: "\<forall>script' caller.
            script_directory script' caller = script_directory script (cwd w) \<longrightarrow>
            main env a script' (w\<lparr>cwd := caller\<rparr>) = main env a script w"
    by (simp add: main_def chdir_parent)
  have n: "\<forall>p. (script = Absolute p \<or> script = Relative p) \<and> p \<noteq> [] \<and>
              last p \<noteq> ''.'' \<and> last p \<noteq> ''..'' \<longrightarrow>
              location script (cwd w) = script_directory script (cwd w) @ [last p]"
    using location_of_script by blast
  have "cwd w' = script_directory script (cwd w)"
    using c d by (simp add: confined_def)
  moreover have "\<forall>x \<in> set (launched w').
            x \<in> set (launched w) \<or> snd x = cwd w' \<or> snd x = cwd w' @ [''frontend'']"
    using c l by (simp add: confined_def)
  moreover have "(\<forall>c d cap s. fst (snd (subprocess_run env c d cap s)) = fst s) \<longrightarrow>
            (\<forall>q. \<not> prefix (cwd w') q \<longrightarrow> files w' q = files w q)"
    using c f by (simp add: confined_def quiet_def)
  ultimately show ?thesis using i n by blast
qed

theorem runs_in_script_directory_witness:
  "cwd called_from_home = [''home'', ''user''] \<and>
   location relative_script_file (cwd called_from_home) = [''srv'', ''aqi'', ''build-and-fix.py''] \<and>
   cwd (snd (main idle_env full_args relative_script_file called_from_home)) = [''srv'', ''aqi''] \<and>
   launched (snd (main idle_env full_args relative_script_file called_from_home)) =
     [(''node --version'', [''srv'', ''aqi'']),
      (''npm --version'', [''srv'', ''aqi'']),
      (''npm install'', [''srv'', ''aqi'']),
      (''npm install'', [''srv'', ''aqi'', ''frontend'']),
      (''npm run type-check'', [''srv'', ''aqi'', ''frontend'']),
      (''npm run build'', [''srv'', ''aqi'', ''frontend'']),
      (''node --version'', [''srv'', ''aqi'']),
      (''npm --version'', [''srv'', ''aqi''])] \<and>
   files (snd (main idle_env full_args relative_script_file called_from_home))
     [''home'', ''user'', ''build-report.txt''] = None \<and>
   files (snd (main idle_env full_args relative_script_file called_from_home))
     [''srv'', ''aqi'', ''build-report.txt''] \<noteq> None \<and>
   main idle_env full_args relative_script_file called_from_home =
     main idle_env full_args script_file stale_world"
proof -
  let ?t = "fst (main idle_env full_args relative_script_file called_from_home)"
  let ?w' = "snd (main idle_env full_args relative_script_file called_from_home)"
  have m: "main idle_env full_args relative_script_file called_from_home = (?t, ?w')"
    by simp
  have m': "main idle_env full_args script_file stale_world =
      (fst (main idle_env full_args script_file stale_world),
       snd (main idle_env full_args script_file stale_world))"
    by simp
  have q: "\<forall>c d cap s. fst (snd (subprocess_run idle_env c d cap s)) = fst s"
    by (simp add: idle_env_def)
  have h: "cwd called_from_home = [''home'', ''user'']"
    by (simp add: called_from_home_def)
  have s: "script_directory relative_script_file [''home'', ''user''] = [''srv'', ''aqi'']"
    by (simp add: script_directory_def relative_script_file_def)
  have s': "script_directory script_file (cwd stale_world) = [''srv'', ''aqi'']"
    by (simp add: script_directory_def script_file_def)
  have loc: "location relative_script_file (cwd called_from_home) =
      [''srv'', ''aqi'', ''build-and-fix.py'']"
    by (simp add: relative_script_file_def h)
  have n: "files called_from_home [''home'', ''user'', ''build-report.txt''] = None"
    by (simp add: called_from_home_def stale_world_def world_of_def)
  from runs_in_script_directory [OF m] q
  have c: "cwd ?w' = [''srv'', ''aqi'']"
    and o: "\<forall>q. \<not> prefix (cwd ?w') q \<longrightarrow> files ?w' q = files called_from_home q"
    by (simp_all add: h s)
  from runs_in_script_directory [OF m'] s s'
  have same: "main idle_env full_args relative_script_file (stale_world\<lparr>cwd := [''home'', ''user'']\<rparr>) =
      main idle_env full_args script_file stale_world"
    by simp
  have same': "main idle_env full_args relative_script_file called_from_home =
      main idle_env full_args script_file stale_world"
    using same by (simp add: called_from_home_def)
  have "files ?w' [''home'', ''user'', ''build-report.txt''] = None"
    using o n by (simp add: c)
  moreover have "launched (snd (main idle_env full_args script_file stale_world)) =
     [(''node --version'', [''srv'', ''aqi'']),
      (''npm --version'', [''srv'', ''aqi'']),
      (''npm install'', [''srv'', ''aqi'']),
      (''npm install'', [''srv'', ''aqi'', ''frontend'']),
      (''npm run type-check'', [''srv'', ''aqi'', ''frontend'']),
      (''npm run build'', [''srv'', ''aqi'', ''frontend'']),
      (''node --version'', [''srv'', ''aqi'']),
      (''npm --version'', [''srv'', ''aqi''])]"
    by (simp add: stage_defs build_frontend_def deploy_def full_args_def script_file_def
        stale_world_def world_of_def project_dir_def idle_env_def run_command_def
        succeeded_def exists_path_def int_defs path_defs Let_def)
  moreover have "files (snd (main idle_env full_args script_file stale_world))
      [''srv'', ''aqi'', ''build-report.txt''] \<noteq> None"
    by (simp add: stage_defs build_frontend_def deploy_def full_args_def script_file_def
        stale_world_def world_of_def project_dir_def idle_env_def run_command_def
        succeeded_def exists_path_def int_defs path_defs Let_def)
  ultimately show ?thesis using h c loc same' by simp
qed

end
